theory Spec2Isabelle
  imports Complex_Main
begin

text \<open>
  A model of the three screens of the civic-issue reporting app: the report screen in its
  plain and its voice-enabled variant, the admin dashboard and the home screen. Every
  handler is a function from the screen state to the new state and the list of effects it
  causes (requests, alerts, navigation); what the surroundings answer is read from a record
  \<open>world\<close>. Console output, styles and the layout of the rendered views are left out.
\<close>

section \<open>JavaScript values used by the screens\<close>

text \<open>
  A JavaScript string is a sequence of UTF-16 code units; it is modelled as the list of
  its code units (numbers below 65536). \<open>js\<close> turns an ASCII literal into such a list.
  A string is truthy exactly when it is not empty.
\<close>

type_synonym jsstring = "nat list"

definition js :: "string \<Rightarrow> jsstring" where
  "js s = map of_char s"

text \<open>\<open>String.prototype.trim\<close>: strips WhiteSpace and LineTerminator code points at both ends.\<close>

definition isWhiteSpace :: "nat \<Rightarrow> bool" where
  "isWhiteSpace c \<longleftrightarrow>
     c \<in> {9, 10, 11, 12, 13, 32, 160, 5760, 8232, 8233, 8239, 8287, 12288, 65279}
     \<or> (8192 \<le> c \<and> c \<le> 8202)"

definition trim :: "jsstring \<Rightarrow> jsstring" where
  "trim s = rev (dropWhile isWhiteSpace (rev (dropWhile isWhiteSpace s)))"

text \<open>
  \<open>encodeURIComponent\<close>: letters, digits and \<open>- _ . ! ~ * ' ( )\<close> are copied; every
  other code point is written as the percent-escaped bytes of its UTF-8 encoding; an unpaired
  surrogate raises URIError (\<open>None\<close>).
\<close>

definition uriUnescaped :: "nat \<Rightarrow> bool" where
  "uriUnescaped c \<longleftrightarrow>
     (48 \<le> c \<and> c \<le> 57) \<or> (65 \<le> c \<and> c \<le> 90) \<or> (97 \<le> c \<and> c \<le> 122)
     \<or> c \<in> {45, 95, 46, 33, 126, 42, 39, 40, 41}"

definition hexDigit :: "nat \<Rightarrow> nat" where
  "hexDigit n = (if n < 10 then 48 + n else 55 + n)"

definition percentByte :: "nat \<Rightarrow> jsstring" where
  "percentByte b = [37, hexDigit (b div 16), hexDigit (b mod 16)]"

definition utf8 :: "nat \<Rightarrow> nat list" where
  "utf8 cp =
     (if cp < 128 then [cp]
      else if cp < 2048 then [192 + cp div 64, 128 + cp mod 64]
      else if cp < 65536 then [224 + cp div 4096, 128 + (cp div 64) mod 64, 128 + cp mod 64]
      else [240 + cp div 262144, 128 + (cp div 4096) mod 64, 128 + (cp div 64) mod 64,
            128 + cp mod 64])"

definition percentEncode :: "nat \<Rightarrow> jsstring" where
  "percentEncode cp = concat (map percentByte (utf8 cp))"

definition isLeadSurrogate :: "nat \<Rightarrow> bool" where
  "isLeadSurrogate c \<longleftrightarrow> 55296 \<le> c \<and> c \<le> 56319"

definition isTrailSurrogate :: "nat \<Rightarrow> bool" where
  "isTrailSurrogate c \<longleftrightarrow> 56320 \<le> c \<and> c \<le> 57343"

fun encodeURIComponent :: "jsstring \<Rightarrow> jsstring option" where
  "encodeURIComponent [] = Some []"
| "encodeURIComponent (c # cs) =
     (if uriUnescaped c then map_option ((#) c) (encodeURIComponent cs)
      else if isTrailSurrogate c then None
      else if isLeadSurrogate c then
        (case cs of
           [] \<Rightarrow> None
         | d # ds \<Rightarrow>
             if isTrailSurrogate d
             then map_option ((@) (percentEncode (65536 + (c - 55296) * 1024 + (d - 56320))))
                    (encodeURIComponent ds)
             else None)
      else map_option ((@) (percentEncode c)) (encodeURIComponent cs))"

text \<open>
  The cached user is typed \<open>any\<close> in every screen: it is whatever \<open>JSON.parse\<close> returned.
  Only the truthiness of the value and its \<open>role\<close> property are observed by the code, so
  JSON numbers are represented by integers (only being zero matters).
\<close>

datatype json =
    JNull
  | JBool bool
  | JNum int
  | JStr jsstring
  | JArr "json list"
  | JObj "(jsstring \<times> json) list"

fun truthy :: "json \<Rightarrow> bool" where
  "truthy JNull = False"
| "truthy (JBool b) = b"
| "truthy (JNum n) = (n \<noteq> 0)"
| "truthy (JStr s) = (s \<noteq> [])"
| "truthy (JArr xs) = True"
| "truthy (JObj kvs) = True"

text \<open>Property read on a non-null value; \<open>None\<close> is \<open>undefined\<close>.\<close>

fun get_prop :: "json \<Rightarrow> jsstring \<Rightarrow> json option" where
  "get_prop (JObj kvs) k = map_of kvs k"
| "get_prop v k = None"

section \<open>Data model\<close>

text \<open>
  \<open>Issue\<close> is the issue object as the backend sends it (the interface of the admin screen;
  the home screen declares a subset of the same fields and keeps the whole object).
\<close>

record Issue =
  id' :: int
  title :: jsstring
  description :: jsstring
  issue_type :: jsstring
  status :: jsstring
  priority :: jsstring
  latitude :: real
  longitude :: real
  address :: jsstring
  image_url :: jsstring
  reported_by :: int
  created_at :: jsstring
  updated_at :: jsstring

record Stats =
  total_issues :: int
  resolved_issues :: int
  pending_issues :: int

record AdminStats = Stats +
  in_progress_issues :: int
  recent_issues :: int
  response_time_avg :: real
  issue_types :: "(jsstring \<times> int) list"

text \<open>
  The value of \<open>response.json()\<close>: the JSON bodies the backend sends, by shape.
  \<open>NullBody\<close> is the JSON text \<open>null\<close> (reading a property of it raises TypeError),
  \<open>EmptyObject\<close> is \<open>{}\<close>, \<open>OtherBody\<close> any other value without the properties read.
\<close>

datatype payload =
    NullBody
  | EmptyObject
  | IssuesBody "Issue list option" "int option"
  | StatsBody AdminStats
  | ErrorBody "jsstring option"
  | OtherBody

text \<open>\<open>data.issues\<close>, \<open>data.total\<close>, \<open>data.error\<close>: outer \<open>None\<close> is the TypeError.\<close>

fun data_issues :: "payload \<Rightarrow> Issue list option option" where
  "data_issues NullBody = None"
| "data_issues (IssuesBody iss tot) = Some iss"
| "data_issues p = Some None"

fun data_total :: "payload \<Rightarrow> int option option" where
  "data_total NullBody = None"
| "data_total (IssuesBody iss tot) = Some tot"
| "data_total p = Some None"

fun data_error :: "payload \<Rightarrow> jsstring option option" where
  "data_error NullBody = None"
| "data_error (ErrorBody e) = Some e"
| "data_error p = Some None"

section \<open>Effects and the outside world\<close>

datatype http_method = GET | POST | PUT | DELETE

text \<open>A part of a multipart body; \<open>NumberPart x\<close> stands for the text \<open>x.toString()\<close>.\<close>

datatype form_value =
    StringPart jsstring
  | NumberPart real
  | FilePart jsstring jsstring jsstring

datatype request_body =
    NoBody
  | StatusJson jsstring
  | Multipart "(jsstring \<times> form_value) list"

record request =
  req_method :: http_method
  url :: jsstring
  authorization :: "jsstring option"
  content_type :: "jsstring option"
  body :: request_body

text \<open>What a button of an alert does when pressed.\<close>

datatype button_action =
    Dismiss
  | GoLogin
  | ResetFormAndExplore
  | ConfirmDelete int

datatype effect =
    Fetch request
  | Alert jsstring jsstring "(jsstring \<times> button_action) list"
  | RouterPush jsstring

text \<open>
  \<open>fetch\<close> either rejects or resolves with a status code and the outcome of
  \<open>response.json()\<close> (\<open>None\<close>: the body is not JSON and the promise rejects).
\<close>

datatype fetch_outcome = Rejects | Resolves nat "payload option"

definition response_ok :: "nat \<Rightarrow> bool" where
  "response_ok code \<longleftrightarrow> 200 \<le> code \<and> code \<le> 299"

datatype storage_read = ReadFails | Item "jsstring option"

datatype permission_outcome = RequestFails | PermissionStatus jsstring

record LocationCoords =
  coords_latitude :: real
  coords_longitude :: real
  coords_accuracy :: "real option"

datatype picker_outcome = PickerFails | Canceled | Picked jsstring

text \<open>
  Everything the screens ask of their surroundings: the configured base URL, the key-value
  store, \<open>JSON.parse\<close> (\<open>None\<close>: SyntaxError), the backend, the permission dialogs, the
  position fix, the camera, the gallery and the translation service (\<open>None\<close>: the call
  throws or rejects). An answer depends on the question only: the backend does not change
  between two equal requests of one handler.
\<close>

record world =
  API_BASE_URL :: jsstring
  getItem :: "jsstring \<Rightarrow> storage_read"
  JSON_parse :: "jsstring \<Rightarrow> json option"
  fetch :: "request \<Rightarrow> fetch_outcome"
  requestCameraPermissionsAsync :: permission_outcome
  requestForegroundPermissionsAsync :: permission_outcome
  getCurrentPositionAsync :: "LocationCoords option"
  takePictureAsync :: "jsstring option"
  launchImageLibraryAsync :: picker_outcome
  translate :: "jsstring \<Rightarrow> jsstring \<Rightarrow> jsstring option"

text \<open>The template literal \<open>`Bearer ${token}`\<close>; a missing token prints as \<open>null\<close>.\<close>

definition bearer :: "jsstring option \<Rightarrow> jsstring" where
  "bearer token = js ''Bearer '' @ (case token of None \<Rightarrow> js ''null'' | Some t \<Rightarrow> t)"

section \<open>Home screen\<close>

record HomeScreen =
  location :: "LocationCoords option"
  issues :: "Issue list"
  stats :: Stats
  loading :: bool
  mapLoading :: bool
  user :: json

definition HomeScreen_initial :: HomeScreen where
  "HomeScreen_initial =
     \<lparr>location = None, issues = [],
      stats = \<lparr>total_issues = 0, resolved_issues = 0, pending_issues = 0\<rparr>,
      loading = True, mapLoading = True, user = JNull\<rparr>"

definition home_issues_request :: "world \<Rightarrow> request" where
  "home_issues_request w =
     \<lparr>req_method = GET, url = API_BASE_URL w @ js ''/api/issues'', authorization = None,
      content_type = None, body = NoBody\<rparr>"

text \<open>\<open>loadIssues\<close> of the home screen: any failure is only logged.\<close>

definition loadIssues :: "world \<Rightarrow> HomeScreen \<Rightarrow> HomeScreen \<times> effect list" where
  "loadIssues w st =
     (let req = home_issues_request w in
      case fetch w req of
        Rejects \<Rightarrow> (st, [Fetch req])
      | Resolves code None \<Rightarrow> (st, [Fetch req])
      | Resolves code (Some data) \<Rightarrow>
          (case data_issues data of
             None \<Rightarrow> (st, [Fetch req])
           | Some None \<Rightarrow> (st\<lparr>issues := []\<rparr>, [Fetch req])
           | Some (Some iss) \<Rightarrow> (st\<lparr>issues := iss\<rparr>, [Fetch req])))"

text \<open>
  \<open>loadStats\<close>: \<open>total = data.total || 0\<close>, \<open>resolved\<close> counts the entries of
  \<open>data.issues\<close> whose status is \<open>'resolved'\<close> (0 without a list), \<open>pending = total - resolved\<close>.
\<close>

definition or_zero :: "int option \<Rightarrow> int" where
  "or_zero n = (case n of None \<Rightarrow> 0 | Some k \<Rightarrow> k)"

definition count_resolved :: "Issue list option \<Rightarrow> int" where
  "count_resolved iss =
     (case iss of
        None \<Rightarrow> 0
      | Some xs \<Rightarrow> int (length (filter (\<lambda>issue. status issue = js ''resolved'') xs)))"

definition loadStats :: "world \<Rightarrow> HomeScreen \<Rightarrow> HomeScreen \<times> effect list" where
  "loadStats w st =
     (let req = home_issues_request w in
      case fetch w req of
        Rejects \<Rightarrow> (st, [Fetch req])
      | Resolves code None \<Rightarrow> (st, [Fetch req])
      | Resolves code (Some data) \<Rightarrow>
          (case (data_total data, data_issues data) of
             (Some tot, Some iss) \<Rightarrow>
               (let total = or_zero tot;
                    resolved = count_resolved iss;
                    pending = total - resolved
                in (st\<lparr>stats := \<lparr>total_issues = total, resolved_issues = resolved,
                                  pending_issues = pending\<rparr>\<rparr>, [Fetch req]))
           | _ \<Rightarrow> (st, [Fetch req])))"

text \<open>The socket handlers of \<open>connectSocket\<close>. The payload of \<open>issue_updated\<close> is \<open>{issue_id, status}\<close>.\<close>

datatype issue_updated = IssueUpdated int jsstring

definition on_new_issue :: "world \<Rightarrow> HomeScreen \<Rightarrow> HomeScreen \<times> effect list" where
  "on_new_issue w st = loadIssues w st"

fun on_issue_updated :: "issue_updated \<Rightarrow> HomeScreen \<Rightarrow> HomeScreen \<times> effect list" where
  "on_issue_updated (IssueUpdated issue_id new_status) st =
     (st\<lparr>issues := map (\<lambda>issue. if id' issue = issue_id
                                then issue\<lparr>status := new_status\<rparr> else issue) (issues st)\<rparr>,
      [])"

section \<open>Admin screen\<close>

record AdminScreen =
  user :: json
  stats :: "payload option"
  issues :: "Issue list"
  loading :: bool
  refreshing :: bool
  searchQuery :: jsstring

definition AdminScreen_initial :: AdminScreen where
  "AdminScreen_initial =
     \<lparr>user = JNull, stats = None, issues = [], loading = True, refreshing = False,
      searchQuery = []\<rparr>"

text \<open>
  \<open>Number.prototype.toString\<close> on an issue id. Ids are integers of magnitude below
  \<open>2^53\<close>, the integers a JSON number keeps exactly; on these the result is the decimal
  numeral (from \<open>10^21\<close> on JavaScript prints an exponent instead).
\<close>

fun digits :: "nat \<Rightarrow> jsstring" where
  "digits n = (if n < 10 then [48 + n] else digits (n div 10) @ [48 + n mod 10])"

declare digits.simps [simp del]

definition number_toString :: "int \<Rightarrow> jsstring" where
  "number_toString i = (if i < 0 then 45 # digits (nat (- i)) else digits (nat i))"

definition json_or_empty :: "payload option \<Rightarrow> payload" where
  "json_or_empty b = (case b of None \<Rightarrow> EmptyObject | Some data \<Rightarrow> data)"

text \<open>\<open>loadUser\<close>: returns the parsed user (or \<open>null\<close>) and stores it.\<close>

definition loadUser_admin :: "world \<Rightarrow> AdminScreen \<Rightarrow> AdminScreen \<times> json" where
  "loadUser_admin w st =
     (case getItem w (js ''user'') of
        ReadFails \<Rightarrow> (st, JNull)
      | Item None \<Rightarrow> (st, JNull)
      | Item (Some userData) \<Rightarrow>
          if userData = [] then (st, JNull)
          else (case JSON_parse w userData of
                  None \<Rightarrow> (st, JNull)
                | Some parsedUser \<Rightarrow> (st\<lparr>user := parsedUser\<rparr>, parsedUser)))"

text \<open>\<open>userData && userData.role === 'admin'\<close>\<close>

definition is_admin :: "json \<Rightarrow> bool" where
  "is_admin userData \<longleftrightarrow>
     truthy userData \<and> get_prop userData (js ''role'') = Some (JStr (js ''admin''))"

definition stats_request :: "world \<Rightarrow> jsstring option \<Rightarrow> request" where
  "stats_request w token =
     \<lparr>req_method = GET, url = API_BASE_URL w @ js ''/api/admin/stats'',
      authorization = Some (bearer token), content_type = None, body = NoBody\<rparr>"

definition stats_failed :: effect where
  "stats_failed = Alert (js ''Error'') (js ''Failed to load statistics'') []"

definition loadAdminStats :: "world \<Rightarrow> AdminScreen \<Rightarrow> AdminScreen \<times> effect list" where
  "loadAdminStats w st =
     (case getItem w (js ''token'') of
        ReadFails \<Rightarrow> (st, [stats_failed])
      | Item token \<Rightarrow>
          (let req = stats_request w token in
           case fetch w req of
             Rejects \<Rightarrow> (st, [Fetch req, stats_failed])
           | Resolves code b \<Rightarrow>
               if response_ok code then (st\<lparr>stats := Some (json_or_empty b)\<rparr>, [Fetch req])
               else (st, [Fetch req, stats_failed])))"

text \<open>
  The URL of \<open>loadAllIssues\<close>: the search parameter is appended only for a non-empty query.
\<close>

definition issues_url :: "world \<Rightarrow> jsstring \<Rightarrow> jsstring option" where
  "issues_url w q =
     (if q \<noteq> [] then
        map_option (\<lambda>e. API_BASE_URL w @ js ''/api/issues'' @ js ''?search='' @ e)
          (encodeURIComponent q)
      else Some (API_BASE_URL w @ js ''/api/issues''))"

definition issues_request :: "jsstring \<Rightarrow> jsstring option \<Rightarrow> request" where
  "issues_request u token =
     \<lparr>req_method = GET, url = u, authorization = Some (bearer token), content_type = None,
      body = NoBody\<rparr>"

definition issues_failed :: effect where
  "issues_failed = Alert (js ''Error'') (js ''Failed to load issues'') []"

text \<open>
  \<open>loadAllIssues\<close>; its second argument is the \<open>searchQuery\<close> of the render whose closure
  is running.
\<close>

definition loadAllIssues :: "world \<Rightarrow> jsstring \<Rightarrow> AdminScreen \<Rightarrow> AdminScreen \<times> effect list" where
  "loadAllIssues w q st =
     (case issues_url w q of
        None \<Rightarrow> (st, [issues_failed])
      | Some u \<Rightarrow>
          (case getItem w (js ''token'') of
             ReadFails \<Rightarrow> (st, [issues_failed])
           | Item token \<Rightarrow>
               (let req = issues_request u token in
                case fetch w req of
                  Rejects \<Rightarrow> (st, [Fetch req, issues_failed])
                | Resolves code b \<Rightarrow>
                    if response_ok code then
                      (case data_issues (json_or_empty b) of
                         None \<Rightarrow> (st, [Fetch req, issues_failed])
                       | Some None \<Rightarrow> (st\<lparr>issues := []\<rparr>, [Fetch req])
                       | Some (Some iss) \<Rightarrow> (st\<lparr>issues := iss\<rparr>, [Fetch req]))
                    else (st, [Fetch req, issues_failed]))))"

text \<open>
  \<open>Promise.all([loadAdminStats(), loadAllIssues()])\<close>: the two loads write different parts
  of the state and neither rejects; their effects are listed one after the other.
\<close>

definition reload :: "world \<Rightarrow> jsstring \<Rightarrow> AdminScreen \<Rightarrow> AdminScreen \<times> effect list" where
  "reload w q st =
     (let (st1, e1) = loadAdminStats w st;
          (st2, e2) = loadAllIssues w q st1
      in (st2, e1 @ e2))"

definition initializeScreen_admin :: "world \<Rightarrow> AdminScreen \<Rightarrow> AdminScreen \<times> effect list" where
  "initializeScreen_admin w st =
     (let (st1, userData) = loadUser_admin w st;
          (st2, effs) = (if is_admin userData then reload w [] st1 else (st1, []))
      in (st2\<lparr>loading := False\<rparr>, effs))"

definition onRefresh :: "world \<Rightarrow> AdminScreen \<Rightarrow> AdminScreen \<times> effect list" where
  "onRefresh w st =
     (let (st1, effs) = reload w (searchQuery st) (st\<lparr>refreshing := True\<rparr>)
      in (st1\<lparr>refreshing := False\<rparr>, effs))"

definition issue_url :: "world \<Rightarrow> int \<Rightarrow> jsstring" where
  "issue_url w issueId = API_BASE_URL w @ js ''/api/issues/'' @ number_toString issueId"

definition update_request :: "world \<Rightarrow> int \<Rightarrow> jsstring \<Rightarrow> jsstring option \<Rightarrow> request" where
  "update_request w issueId newStatus token =
     \<lparr>req_method = PUT, url = issue_url w issueId, authorization = Some (bearer token),
      content_type = Some (js ''application/json''), body = StatusJson newStatus\<rparr>"

definition update_failed :: effect where
  "update_failed = Alert (js ''Error'') (js ''Failed to update issue status'') []"

definition updateIssueStatus ::
  "world \<Rightarrow> int \<Rightarrow> jsstring \<Rightarrow> AdminScreen \<Rightarrow> AdminScreen \<times> effect list" where
  "updateIssueStatus w issueId newStatus st =
     (case getItem w (js ''token'') of
        ReadFails \<Rightarrow> (st, [update_failed])
      | Item token \<Rightarrow>
          (let req = update_request w issueId newStatus token in
           case fetch w req of
             Rejects \<Rightarrow> (st, [Fetch req, update_failed])
           | Resolves code b \<Rightarrow>
               if response_ok code then
                 (let (st1, effs) = reload w (searchQuery st) st
                  in (st1, [Fetch req,
                            Alert (js ''Success'') (js ''Issue status updated successfully'') []]
                           @ effs))
               else (st, [Fetch req, update_failed])))"

text \<open>
  \<open>deleteIssue\<close> only opens the confirmation dialog; the handler of its Delete button is
  \<open>deleteIssue_onPress\<close>.
\<close>

definition deleteIssue :: "int \<Rightarrow> AdminScreen \<Rightarrow> AdminScreen \<times> effect list" where
  "deleteIssue issueId st =
     (st, [Alert (js ''Confirm Delete'') (js ''Are you sure you want to remove this issue?'')
             [(js ''Cancel'', Dismiss), (js ''Delete'', ConfirmDelete issueId)]])"

definition delete_request :: "world \<Rightarrow> int \<Rightarrow> jsstring option \<Rightarrow> request" where
  "delete_request w issueId token =
     \<lparr>req_method = DELETE, url = issue_url w issueId, authorization = Some (bearer token),
      content_type = None, body = NoBody\<rparr>"

definition delete_failed :: effect where
  "delete_failed = Alert (js ''Error'') (js ''Failed to remove issue'') []"

definition deleteIssue_onPress ::
  "world \<Rightarrow> int \<Rightarrow> AdminScreen \<Rightarrow> AdminScreen \<times> effect list" where
  "deleteIssue_onPress w issueId st =
     (case getItem w (js ''token'') of
        ReadFails \<Rightarrow> (st, [delete_failed])
      | Item token \<Rightarrow>
          (let req = delete_request w issueId token in
           case fetch w req of
             Rejects \<Rightarrow> (st, [Fetch req, delete_failed])
           | Resolves code b \<Rightarrow>
               if response_ok code then
                 (let (st1, effs) = reload w (searchQuery st) st
                  in (st1, [Fetch req,
                            Alert (js ''Success'') (js ''Issue removed successfully'') []]
                           @ effs))
               else (st, [Fetch req, delete_failed])))"

text \<open>The gates at the top of the render function.\<close>

datatype admin_view = LoginPrompt | AccessDenied | LoadingView | Dashboard

definition render_admin :: "AdminScreen \<Rightarrow> admin_view" where
  "render_admin st =
     (if \<not> truthy (user st) then LoginPrompt
      else if get_prop (user st) (js ''role'') \<noteq> Some (JStr (js ''admin'')) then AccessDenied
      else if loading st then LoadingView
      else Dashboard)"

subsection \<open>The search effect and its timer\<close>

text \<open>
  Time is counted in milliseconds since the screen was mounted. The runtime of the mounted
  screen is its state, the clock, the pending \<open>setTimeout\<close> of the search effect (its
  deadline and the query its closure holds) and the effects so far, each with its time.
\<close>

record AdminRuntime =
  screen :: AdminScreen
  clock :: nat
  timer :: "(nat \<times> jsstring) option"
  trace :: "(nat \<times> effect) list"

definition run_loadAllIssues :: "world \<Rightarrow> nat \<Rightarrow> jsstring \<Rightarrow> AdminRuntime \<Rightarrow> AdminRuntime" where
  "run_loadAllIssues w t q rt =
     (let (st1, effs) = loadAllIssues w q (screen rt)
      in rt\<lparr>screen := st1, trace := trace rt @ map (Pair t) effs\<rparr>)"


text \<open>The body of \<open>useEffect(..., [searchQuery])\<close>, run after a render with a new query.\<close>

definition searchQuery_effect :: "world \<Rightarrow> AdminRuntime \<Rightarrow> AdminRuntime" where
  "searchQuery_effect w rt =
     (let q = searchQuery (screen rt) in
      if q \<noteq> [] then rt\<lparr>timer := Some (clock rt + 500, q)\<rparr>
      else run_loadAllIssues w (clock rt) q rt)"




text \<open>
  Mounting runs both effects after the first render: \<open>initializeScreen\<close> and the search
  effect with the initial, empty query. Both start at time 0 and run concurrently. The
  \<open>loadAllIssues\<close> of the search effect reaches \<open>fetch\<close> after one \<open>await\<close>, the
  loads of \<open>initializeScreen\<close> only after \<open>loadUser\<close> has returned, so the request of
  the search effect comes first, then those of \<open>initializeScreen\<close>.
\<close>

definition mount_admin :: "world \<Rightarrow> AdminRuntime" where
  "mount_admin w =
     (let rt = searchQuery_effect w
                 \<lparr>screen = AdminScreen_initial, clock = 0, timer = None, trace = []\<rparr>;
          (st1, effs) = initializeScreen_admin w (screen rt)
      in rt\<lparr>screen := st1, trace := trace rt @ map (Pair 0) effs\<rparr>)"

text \<open>The requests of a trace, with their times.\<close>

fun requests :: "(nat \<times> effect) list \<Rightarrow> (nat \<times> request) list" where
  "requests [] = []"
| "requests ((t, Fetch r) # es) = (t, r) # requests es"
| "requests (e # es) = requests es"

section \<open>Report screen\<close>

datatype facing = Back | Front

record IssueFormData =
  title :: jsstring
  description :: jsstring
  issue_type :: jsstring
  latitude :: real
  longitude :: real
  accuracy :: real

text \<open>
  The state of the report screen; \<open>'f\<close> is the type of the form draft. The camera reference
  \<open>cameraRef.current\<close> is attached exactly while the camera view is rendered, that is while
  \<open>cameraVisible\<close> holds.
\<close>

record 'f ReportScreen =
  hasCameraPermission :: "bool option"
  cameraVisible :: bool
  cameraFacing :: facing
  capturedPhoto :: "jsstring option"
  location :: "LocationCoords option"
  loading :: bool
  user :: json
  showTypeMenu :: bool
  formData :: 'f

definition ReportScreen_initial :: "IssueFormData ReportScreen" where
  "ReportScreen_initial =
     \<lparr>hasCameraPermission = None, cameraVisible = False, cameraFacing = Back,
      capturedPhoto = None, location = None, loading = False, user = JNull,
      showTypeMenu = False,
      formData = \<lparr>title = [], description = [], issue_type = [], latitude = 0,
                  longitude = 0, accuracy = 0\<rparr>\<rparr>"

definition or_zero_real :: "real option \<Rightarrow> real" where
  "or_zero_real x = (case x of None \<Rightarrow> 0 | Some r \<Rightarrow> r)"

definition getCameraPermissions ::
  "world \<Rightarrow> IssueFormData ReportScreen \<Rightarrow> IssueFormData ReportScreen \<times> effect list" where
  "getCameraPermissions w st =
     (case requestCameraPermissionsAsync w of
        RequestFails \<Rightarrow> (st, [Alert (js ''Camera Error'') (js ''Unable to access camera'') []])
      | PermissionStatus s \<Rightarrow> (st\<lparr>hasCameraPermission := Some (s = js ''granted'')\<rparr>, []))"

definition location_error :: effect where
  "location_error = Alert (js ''Location Error'') (js ''Unable to get your location'') []"

definition getLocationPermissions ::
  "world \<Rightarrow> IssueFormData ReportScreen \<Rightarrow> IssueFormData ReportScreen \<times> effect list" where
  "getLocationPermissions w st =
     (case requestForegroundPermissionsAsync w of
        RequestFails \<Rightarrow> (st, [location_error])
      | PermissionStatus s \<Rightarrow>
          if s \<noteq> js ''granted''
          then (st, [Alert (js ''Permission denied'') (js ''Location permission is required'') []])
          else (case getCurrentPositionAsync w of
                  None \<Rightarrow> (st, [location_error])
                | Some currentLocation \<Rightarrow>
                    (st\<lparr>location := Some currentLocation,
                        formData := (formData st)
                          \<lparr>latitude := coords_latitude currentLocation,
                           longitude := coords_longitude currentLocation,
                           accuracy := or_zero_real (coords_accuracy currentLocation)\<rparr>\<rparr>,
                     [])))"

definition login_required :: effect where
  "login_required =
     Alert (js ''Authentication Required'') (js ''Please login to report an issue'')
       [(js ''Login'', GoLogin)]"

definition loadUser_report ::
  "world \<Rightarrow> IssueFormData ReportScreen \<Rightarrow> IssueFormData ReportScreen \<times> effect list" where
  "loadUser_report w st =
     (case getItem w (js ''user'') of
        ReadFails \<Rightarrow> (st, [])
      | Item None \<Rightarrow> (st, [login_required])
      | Item (Some userData) \<Rightarrow>
          if userData = [] then (st, [login_required])
          else (case JSON_parse w userData of
                  None \<Rightarrow> (st, [])
                | Some parsedUser \<Rightarrow> (st\<lparr>user := parsedUser\<rparr>, [])))"

text \<open>
  \<open>initializeScreen\<close>: the three requests are started together; they write different parts
  of the state. An alert that follows the first \<open>await\<close> of its function comes in the
  order of the calls; the alert for a failed position fix follows a second \<open>await\<close> and
  comes after the others.
\<close>

definition initializeScreen_report ::
  "world \<Rightarrow> IssueFormData ReportScreen \<Rightarrow> IssueFormData ReportScreen \<times> effect list" where
  "initializeScreen_report w st =
     (let (st1, e1) = getLocationPermissions w st;
          (st2, e2) = getCameraPermissions w st1;
          (st3, e3) = loadUser_report w st2
      in (st3,
          if requestForegroundPermissionsAsync w = PermissionStatus (js ''granted'')
          then e2 @ e3 @ e1 else e1 @ e2 @ e3))"

text \<open>
  The handlers of the form fields are the same in both variants of the screen; they are
  written once, for any form draft that has the fields of \<open>IssueFormData\<close>.
\<close>

definition title_onChangeText ::
  "jsstring \<Rightarrow> ('a IssueFormData_scheme, 'b) ReportScreen_scheme
     \<Rightarrow> ('a IssueFormData_scheme, 'b) ReportScreen_scheme" where
  "title_onChangeText text st = st\<lparr>formData := (formData st)\<lparr>title := text\<rparr>\<rparr>"

definition description_onChangeText ::
  "jsstring \<Rightarrow> ('a IssueFormData_scheme, 'b) ReportScreen_scheme
     \<Rightarrow> ('a IssueFormData_scheme, 'b) ReportScreen_scheme" where
  "description_onChangeText text st = st\<lparr>formData := (formData st)\<lparr>description := text\<rparr>\<rparr>"

definition issue_type_onPress ::
  "jsstring \<Rightarrow> ('a IssueFormData_scheme, 'b) ReportScreen_scheme
     \<Rightarrow> ('a IssueFormData_scheme, 'b) ReportScreen_scheme" where
  "issue_type_onPress v st =
     st\<lparr>formData := (formData st)\<lparr>issue_type := v\<rparr>, showTypeMenu := False\<rparr>"

text \<open>The handler of the Take Photo button: \<open>() => setCameraVisible(true)\<close>.\<close>

definition takePhoto_onPress :: "IssueFormData ReportScreen \<Rightarrow> IssueFormData ReportScreen" where
  "takePhoto_onPress st = st\<lparr>cameraVisible := True\<rparr>"

definition takePicture ::
  "world \<Rightarrow> IssueFormData ReportScreen \<Rightarrow> IssueFormData ReportScreen \<times> effect list" where
  "takePicture w st =
     (if cameraVisible st then
        (case takePictureAsync w of
           None \<Rightarrow> (st, [Alert (js ''Camera Error'') (js ''Failed to take picture'') []])
         | Some uri \<Rightarrow> (st\<lparr>capturedPhoto := Some uri, cameraVisible := False\<rparr>, []))
      else (st, []))"

definition pickImage ::
  "world \<Rightarrow> IssueFormData ReportScreen \<Rightarrow> IssueFormData ReportScreen \<times> effect list" where
  "pickImage w st =
     (case launchImageLibraryAsync w of
        PickerFails \<Rightarrow> (st, [Alert (js ''Error'') (js ''Failed to pick image from gallery'') []])
      | Canceled \<Rightarrow> (st, [])
      | Picked uri \<Rightarrow> (st\<lparr>capturedPhoto := Some uri\<rparr>, []))"

definition retakePicture :: "IssueFormData ReportScreen \<Rightarrow> IssueFormData ReportScreen" where
  "retakePicture st = st\<lparr>capturedPhoto := None\<rparr>"

definition toggleCameraType :: "IssueFormData ReportScreen \<Rightarrow> IssueFormData ReportScreen" where
  "toggleCameraType st = st\<lparr>cameraFacing := (if cameraFacing st = Back then Front else Back)\<rparr>"

text \<open>The part after the last dot of the photo URI (the whole URI when it has no dot).\<close>

definition fileType_of :: "jsstring \<Rightarrow> jsstring" where
  "fileType_of uri = rev (takeWhile (\<lambda>c. c \<noteq> 46) (rev uri))"

definition photo_part :: "jsstring option \<Rightarrow> (jsstring \<times> form_value) list" where
  "photo_part photo =
     (case photo of
        None \<Rightarrow> []
      | Some uri \<Rightarrow>
          if uri = [] then []
          else [(js ''image'',
                 FilePart uri (js ''image/'' @ fileType_of uri)
                   (js ''issue-photo.'' @ fileType_of uri))])"

definition post_request ::
  "world \<Rightarrow> jsstring option \<Rightarrow> (jsstring \<times> form_value) list \<Rightarrow> request" where
  "post_request w token parts =
     \<lparr>req_method = POST, url = API_BASE_URL w @ js ''/api/issues'',
      authorization = Some (bearer token), content_type = Some (js ''multipart/form-data''),
      body = Multipart parts\<rparr>"

definition auth_required :: effect where
  "auth_required =
     Alert (js ''Authentication Required'') (js ''Please login to submit a report'') []"

definition missing_information :: effect where
  "missing_information =
     Alert (js ''Missing Information'') (js ''Please fill in all required fields'') []"

definition network_error :: effect where
  "network_error = Alert (js ''Error'') (js ''Network error. Please try again.'') []"

definition submit_success :: effect where
  "submit_success =
     Alert (js ''Success'') (js ''Issue reported successfully!'')
       [(js ''OK'', ResetFormAndExplore)]"

text \<open>
  What follows the POST, the same in both variants: the body is read with
  \<open>response.json()\<close>, then \<open>response.ok\<close> decides; a failure shows
  \<open>data.error || 'Failed to submit report'\<close>.
\<close>

definition after_post :: "fetch_outcome \<Rightarrow> effect" where
  "after_post r =
     (case r of
        Rejects \<Rightarrow> network_error
      | Resolves code None \<Rightarrow> network_error
      | Resolves code (Some data) \<Rightarrow>
          if response_ok code then submit_success
          else (case data_error data of
                  None \<Rightarrow> network_error
                | Some None \<Rightarrow> Alert (js ''Error'') (js ''Failed to submit report'') []
                | Some (Some e) \<Rightarrow>
                    Alert (js ''Error'') (if e \<noteq> [] then e else js ''Failed to submit report'') []))"

definition form_parts :: "IssueFormData \<Rightarrow> (jsstring \<times> form_value) list" where
  "form_parts f =
     [(js ''title'', StringPart (title f)),
      (js ''description'', StringPart (description f)),
      (js ''issue_type'', StringPart (issue_type f)),
      (js ''latitude'', NumberPart (latitude f)),
      (js ''longitude'', NumberPart (longitude f)),
      (js ''accuracy'', NumberPart (accuracy f))]"

definition submitReport ::
  "world \<Rightarrow> IssueFormData ReportScreen \<Rightarrow> IssueFormData ReportScreen \<times> effect list" where
  "submitReport w st =
     (if \<not> truthy (user st) then (st, [auth_required])
      else if trim (title (formData st)) = [] \<or> issue_type (formData st) = []
      then (st, [missing_information])
      else
        (let parts = form_parts (formData st) @ photo_part (capturedPhoto st) in
         case getItem w (js ''token'') of
           ReadFails \<Rightarrow> (st\<lparr>loading := False\<rparr>, [network_error])
         | Item token \<Rightarrow>
             (let req = post_request w token parts
              in (st\<lparr>loading := False\<rparr>, [Fetch req, after_post (fetch w req)]))))"

text \<open>The submit button: while its \<open>disabled\<close> property holds a press does nothing.\<close>

definition submit_disabled :: "IssueFormData ReportScreen \<Rightarrow> bool" where
  "submit_disabled st \<longleftrightarrow>
     loading st \<or> title (formData st) = [] \<or> issue_type (formData st) = []"

definition submit_onPress ::
  "world \<Rightarrow> IssueFormData ReportScreen \<Rightarrow> IssueFormData ReportScreen \<times> effect list" where
  "submit_onPress w st = (if submit_disabled st then (st, []) else submitReport w st)"

definition resetForm :: "IssueFormData ReportScreen \<Rightarrow> IssueFormData ReportScreen" where
  "resetForm st =
     st\<lparr>formData :=
          \<lparr>title = [], description = [], issue_type = [],
           latitude = (case location st of None \<Rightarrow> 0 | Some c \<Rightarrow> coords_latitude c),
           longitude = (case location st of None \<Rightarrow> 0 | Some c \<Rightarrow> coords_longitude c),
           accuracy = (case location st of None \<Rightarrow> 0 | Some c \<Rightarrow> or_zero_real (coords_accuracy c))\<rparr>,
        capturedPhoto := None\<rparr>"

text \<open>The requests among a list of effects.\<close>

fun fetches :: "effect list \<Rightarrow> request list" where
  "fetches [] = []"
| "fetches (Fetch r # es) = r # fetches es"
| "fetches (e # es) = fetches es"

subsection \<open>Voice-enabled variant\<close>

record VoiceFormData = IssueFormData +
  translated :: jsstring

record Language =
  label :: jsstring
  code :: jsstring

record 'f VoiceScreen = "'f ReportScreen" +
  selectedLang :: Language

definition LANGUAGES :: "Language list" where
  "LANGUAGES =
     [\<lparr>label = js ''English'', code = js ''en-IN''\<rparr>,
      \<lparr>label = js ''Hindi'', code = js ''hi-IN''\<rparr>,
      \<lparr>label = js ''Tamil'', code = js ''ta-IN''\<rparr>,
      \<lparr>label = js ''Malayalam'', code = js ''ml-IN''\<rparr>,
      \<lparr>label = js ''Telugu'', code = js ''te-IN''\<rparr>,
      \<lparr>label = js ''Kannada'', code = js ''kn-IN''\<rparr>,
      \<lparr>label = js ''Odia'', code = js ''or-IN''\<rparr>,
      \<lparr>label = js ''Sanskrit'', code = js ''sa-IN''\<rparr>,
      \<lparr>label = js ''Gujarati'', code = js ''gu-IN''\<rparr>,
      \<lparr>label = js ''Bengali'', code = js ''bn-IN''\<rparr>]"

definition VoiceScreen_initial :: "VoiceFormData VoiceScreen" where
  "VoiceScreen_initial =
     \<lparr>hasCameraPermission = None, cameraVisible = False, cameraFacing = Back,
      capturedPhoto = None, location = None, loading = False, user = JNull,
      showTypeMenu = False,
      formData = \<lparr>title = [], description = [], issue_type = [], latitude = 0,
                  longitude = 0, accuracy = 0, translated = []\<rparr>,
      selectedLang = \<lparr>label = js ''English'', code = js ''en-IN''\<rparr>\<rparr>"

text \<open>
  \<open>handleTranslate text langCode\<close>, applied to the state in which its promise settles (the
  updates are functional, \<open>prev => ({...prev, translated})\<close>). A translation that throws
  stores the text it was given.
\<close>

definition handleTranslate ::
  "world \<Rightarrow> jsstring \<Rightarrow> jsstring \<Rightarrow> VoiceFormData VoiceScreen \<Rightarrow> VoiceFormData VoiceScreen" where
  "handleTranslate w text langCode st =
     (if trim text = [] then st\<lparr>formData := (formData st)\<lparr>translated := []\<rparr>\<rparr>
      else (case translate w text langCode of
              Some t \<Rightarrow> st\<lparr>formData := (formData st)\<lparr>translated := t\<rparr>\<rparr>
            | None \<Rightarrow> st\<lparr>formData := (formData st)\<lparr>translated := text\<rparr>\<rparr>))"

text \<open>The effect on \<open>[formData.description, selectedLang]\<close>.\<close>

definition description_effect ::
  "world \<Rightarrow> VoiceFormData VoiceScreen \<Rightarrow> VoiceFormData VoiceScreen" where
  "description_effect w st =
     (if description (formData st) \<noteq> []
      then handleTranslate w (description (formData st)) (code (selectedLang st)) st
      else st\<lparr>formData := (formData st)\<lparr>translated := []\<rparr>\<rparr>)"

text \<open>A message of the speech-recognition web view.\<close>

definition onMessage ::
  "jsstring \<Rightarrow> VoiceFormData VoiceScreen \<Rightarrow> VoiceFormData VoiceScreen \<times> effect list" where
  "onMessage msg st =
     (if take 6 msg = js ''ERROR:'' then (st, [Alert (js ''Voice Error'') msg []])
      else (st\<lparr>formData := (formData st)
                 \<lparr>description := (if description (formData st) \<noteq> []
                                   then description (formData st) @ js '' '' @ msg
                                   else msg)\<rparr>\<rparr>, []))"

definition form_parts_voice :: "VoiceFormData \<Rightarrow> (jsstring \<times> form_value) list" where
  "form_parts_voice f =
     [(js ''title'', StringPart (title f)),
      (js ''description'', StringPart (translated f)),
      (js ''issue_type'', StringPart (issue_type f)),
      (js ''latitude'', NumberPart (latitude f)),
      (js ''longitude'', NumberPart (longitude f)),
      (js ''accuracy'', NumberPart (accuracy f))]"

definition submitReport_voice ::
  "world \<Rightarrow> VoiceFormData VoiceScreen \<Rightarrow> VoiceFormData VoiceScreen \<times> effect list" where
  "submitReport_voice w st =
     (if \<not> truthy (user st) then (st, [auth_required])
      else if issue_type (formData st) = [] \<or> trim (description (formData st)) = []
              \<or> trim (translated (formData st)) = []
      then (st, [missing_information])
      else
        (let parts = form_parts_voice (formData st) @ photo_part (capturedPhoto st) in
         case getItem w (js ''token'') of
           ReadFails \<Rightarrow> (st\<lparr>loading := False\<rparr>, [network_error])
         | Item token \<Rightarrow>
             (let req = post_request w token parts
              in (st\<lparr>loading := False\<rparr>, [Fetch req, after_post (fetch w req)]))))"

definition submit_disabled_voice :: "VoiceFormData VoiceScreen \<Rightarrow> bool" where
  "submit_disabled_voice st \<longleftrightarrow>
     loading st \<or> issue_type (formData st) = [] \<or> description (formData st) = []
     \<or> translated (formData st) = []"

definition submit_onPress_voice ::
  "world \<Rightarrow> VoiceFormData VoiceScreen \<Rightarrow> VoiceFormData VoiceScreen \<times> effect list" where
  "submit_onPress_voice w st =
     (if submit_disabled_voice st then (st, []) else submitReport_voice w st)"

section \<open>Reference notions and example inputs\<close>

text \<open>
  The number of fetched issues that are not resolved, in the words of the specification of
  the home screen's statistics (the code never computes it).
\<close>

definition unresolved_count :: "Issue list \<Rightarrow> int" where
  "unresolved_count xs = int (length (filter (\<lambda>issue. status issue \<noteq> js ''resolved'') xs))"

definition example_issue :: "int \<Rightarrow> jsstring \<Rightarrow> Issue" where
  "example_issue n s =
     \<lparr>id' = n, title = js ''Pothole'', description = js ''Deep'', issue_type = js ''pothole'',
      status = s, priority = js ''medium'', latitude = 11, longitude = 77,
      address = js ''Main Road'', image_url = [], reported_by = 1,
      created_at = js ''2024-01-01'', updated_at = js ''2024-01-02''\<rparr>"

definition example_home :: HomeScreen where
  "example_home =
     HomeScreen_initial\<lparr>HomeScreen.issues :=
       [example_issue 5 (js ''reported''), example_issue 7 (js ''acknowledged'')]\<rparr>"

text \<open>
  A world with a cached administrator and a token, a backend that answers every request with
  status 200 and one reported issue out of a total of three, both permissions denied and a
  translation service that always fails.
\<close>

definition example_world :: world where
  "example_world =
     \<lparr>API_BASE_URL = js ''http://backend'',
      getItem = (\<lambda>k. if k = js ''user'' then Item (Some (js ''{}'')) else Item (Some (js ''t0''))),
      JSON_parse = (\<lambda>s. Some (JObj [(js ''role'', JStr (js ''admin''))])),
      fetch = (\<lambda>r. Resolves 200
                 (Some (IssuesBody (Some [example_issue 5 (js ''reported'')]) (Some 3)))),
      requestCameraPermissionsAsync = PermissionStatus (js ''denied''),
      requestForegroundPermissionsAsync = PermissionStatus (js ''denied''),
      getCurrentPositionAsync = None,
      takePictureAsync = None,
      launchImageLibraryAsync = Canceled,
      translate = (\<lambda>text langCode. None)\<rparr>"

text \<open>The same world with nothing in the key-value store: no cached user, no token.\<close>

definition guest_world :: world where
  "guest_world = example_world\<lparr>getItem := (\<lambda>k. Item None)\<rparr>"

text \<open>The same world with a backend that answers every request with status 500.\<close>

definition failing_world :: world where
  "failing_world = example_world\<lparr>fetch := (\<lambda>r. Resolves 500 None)\<rparr>"




text \<open>
  Drafts on the report screen: a form filled in after both permissions were denied on mount,
  a form without an issue type on a screen with no cached user, and a voice draft with a
  Hindi description that has not been translated yet.
\<close>

definition example_user :: json where
  "example_user = JObj [(js ''role'', JStr (js ''citizen''))]"

definition example_report :: "IssueFormData ReportScreen" where
  "example_report =
     issue_type_onPress (js ''pothole'')
       (title_onChangeText (js ''Hole'')
          (fst (initializeScreen_report example_world ReportScreen_initial)))"

definition anonymous_report :: "IssueFormData ReportScreen" where
  "anonymous_report =
     description_onChangeText (js ''Deep'') (title_onChangeText (js ''Hole'') ReportScreen_initial)"

definition example_voice :: "VoiceFormData VoiceScreen" where
  "example_voice =
     description_onChangeText (js ''gaddha'')
       (issue_type_onPress (js ''pothole'')
          (VoiceScreen_initial\<lparr>user := example_user,
             selectedLang := \<lparr>label = js ''Hindi'', code = js ''hi-IN''\<rparr>\<rparr>))"

section \<open>Home screen: socket events and statistics\<close>

text \<open>
  Claim C4. The handler of \<open>issue_updated\<close> with payload \<open>{issue_id, status}\<close> keeps the
  length and order of the in-memory list, replaces an entry whose id equals \<open>issue_id\<close> by the
  same entry with only its status changed, leaves every other entry and every other part of
  the screen state as it was (so a payload that matches no entry leaves the state unchanged),
  and issues no request.
\<close>

theorem issue_updated_patches_status_only:
  "snd (on_issue_updated (IssueUpdated issue_id new_status) st) = [] \<and>
   length (HomeScreen.issues (fst (on_issue_updated (IssueUpdated issue_id new_status) st)))
     = length (HomeScreen.issues st) \<and>
   (\<forall>i < length (HomeScreen.issues st).
      HomeScreen.issues (fst (on_issue_updated (IssueUpdated issue_id new_status) st)) ! i =
        (if id' (HomeScreen.issues st ! i) = issue_id
         then (HomeScreen.issues st ! i)\<lparr>status := new_status\<rparr>
         else HomeScreen.issues st ! i)) \<and>
   HomeScreen.location (fst (on_issue_updated (IssueUpdated issue_id new_status) st))
     = HomeScreen.location st \<and>
   HomeScreen.stats (fst (on_issue_updated (IssueUpdated issue_id new_status) st))
     = HomeScreen.stats st \<and>
   HomeScreen.loading (fst (on_issue_updated (IssueUpdated issue_id new_status) st))
     = HomeScreen.loading st \<and>
   mapLoading (fst (on_issue_updated (IssueUpdated issue_id new_status) st)) = mapLoading st \<and>
   HomeScreen.user (fst (on_issue_updated (IssueUpdated issue_id new_status) st))
     = HomeScreen.user st \<and>
   ((\<forall>issue \<in> set (HomeScreen.issues st). id' issue \<noteq> issue_id) \<longrightarrow>
      fst (on_issue_updated (IssueUpdated issue_id new_status) st) = st)"
proof -
  have "(\<forall>issue \<in> set xs. id' issue \<noteq> issue_id) \<Longrightarrow>
        map (\<lambda>issue. if id' issue = issue_id then issue\<lparr>status := new_status\<rparr> else issue) xs = xs"
    for xs :: "Issue list"
    by (induction xs) auto
  then show ?thesis by simp
qed

theorem issue_updated_patches_status_only_witness:
  "HomeScreen.issues (fst (on_issue_updated (IssueUpdated 5 (js ''resolved'')) example_home)) =
     [example_issue 5 (js ''resolved''), example_issue 7 (js ''acknowledged'')] \<and>
   fst (on_issue_updated (IssueUpdated 9 (js ''resolved'')) example_home) = example_home"
proof -
  have a: "(0::nat) < length (HomeScreen.issues example_home)"
    and b: "(1::nat) < length (HomeScreen.issues example_home)"
    by (simp_all add: example_home_def)
  have c: "\<forall>issue \<in> set (HomeScreen.issues example_home). id' issue \<noteq> 9"
    by (simp add: example_home_def example_issue_def)
  note t5 = issue_updated_patches_status_only [of 5 "js ''resolved''" example_home]
  note t9 = issue_updated_patches_status_only [of 9 "js ''resolved''" example_home]
  from t9 c
  have "fst (on_issue_updated (IssueUpdated 9 (js ''resolved'')) example_home) = example_home"
    by blast
  moreover from t5 a b have
    "HomeScreen.issues (fst (on_issue_updated (IssueUpdated 5 (js ''resolved'')) example_home)) =
     [example_issue 5 (js ''resolved''), example_issue 7 (js ''acknowledged'')]"
    by (simp add: example_home_def example_issue_def)
  ultimately show ?thesis by simp
qed

lemma count_resolved_split:
  "count_resolved (Some xs) + unresolved_count xs = int (length xs)"
  unfolding count_resolved_def unresolved_count_def
  using sum_length_filter_compl [of "\<lambda>issue. status issue = js ''resolved''" xs] by simp

text \<open>
  Claim C9, as the code has it. For a response \<open>{issues, total}\<close> the home screen sets
  \<open>resolved_issues\<close> to the number of fetched issues whose status is \<open>'resolved'\<close>,
  \<open>total_issues\<close> to the \<open>total\<close> field of the response (0 when it is missing) and
  \<open>pending_issues\<close> to their difference, so that \<open>total_issues = resolved_issues +
  pending_issues\<close>; \<open>pending_issues\<close> is the number of fetched issues that are not resolved
  when \<open>total\<close> equals the number of fetched issues.
\<close>

theorem loadStats_counts:
  assumes "fetch w (home_issues_request w) = Resolves sc (Some (IssuesBody iss tot))"
  shows "resolved_issues (HomeScreen.stats (fst (loadStats w st)))
           = (case iss of
                None \<Rightarrow> 0
              | Some xs \<Rightarrow> int (length (filter (\<lambda>issue. status issue = js ''resolved'') xs))) \<and>
         total_issues (HomeScreen.stats (fst (loadStats w st)))
           = (case tot of None \<Rightarrow> 0 | Some n \<Rightarrow> n) \<and>
         pending_issues (HomeScreen.stats (fst (loadStats w st)))
           = total_issues (HomeScreen.stats (fst (loadStats w st)))
             - resolved_issues (HomeScreen.stats (fst (loadStats w st))) \<and>
         total_issues (HomeScreen.stats (fst (loadStats w st)))
           = resolved_issues (HomeScreen.stats (fst (loadStats w st)))
             + pending_issues (HomeScreen.stats (fst (loadStats w st))) \<and>
         (\<forall>xs. iss = Some xs \<and> tot = Some (int (length xs)) \<longrightarrow>
            pending_issues (HomeScreen.stats (fst (loadStats w st))) = unresolved_count xs)"
proof -
  have "HomeScreen.stats (fst (loadStats w st)) =
          \<lparr>total_issues = or_zero tot, resolved_issues = count_resolved iss,
           pending_issues = or_zero tot - count_resolved iss\<rparr>"
    using assms by (simp add: loadStats_def Let_def)
  moreover have "int (length xs) - count_resolved (Some xs) = unresolved_count xs" for xs
    using count_resolved_split [of xs] by simp
  ultimately show ?thesis
    by (auto simp: or_zero_def count_resolved_def split: option.split)
qed

theorem loadStats_counts_witness:
  "HomeScreen.stats (fst (loadStats example_world HomeScreen_initial))
     = \<lparr>total_issues = 3, resolved_issues = 0, pending_issues = 3\<rparr>"
proof -
  have h: "fetch example_world (home_issues_request example_world)
             = Resolves 200 (Some (IssuesBody (Some [example_issue 5 (js ''reported'')]) (Some 3)))"
    by (simp add: example_world_def)
  have ne: "js ''reported'' \<noteq> js ''resolved''" by (simp add: js_def)
  have eq: "HomeScreen.stats (fst (loadStats example_world HomeScreen_initial)) =
      \<lparr>total_issues = total_issues (HomeScreen.stats (fst (loadStats example_world HomeScreen_initial))),
       resolved_issues = resolved_issues (HomeScreen.stats (fst (loadStats example_world HomeScreen_initial))),
       pending_issues = pending_issues (HomeScreen.stats (fst (loadStats example_world HomeScreen_initial)))\<rparr>"
    by simp
  from loadStats_counts [OF h, of HomeScreen_initial] ne
  have "total_issues (HomeScreen.stats (fst (loadStats example_world HomeScreen_initial))) = 3"
    and "resolved_issues (HomeScreen.stats (fst (loadStats example_world HomeScreen_initial))) = 0"
    and "pending_issues (HomeScreen.stats (fst (loadStats example_world HomeScreen_initial))) = 3"
    by (simp_all add: example_issue_def)
  with eq show ?thesis by simp
qed

text \<open>
  Against claim C9 as stated: the backend answers with one fetched issue, which is not
  resolved, and \<open>total = 3\<close>; the screen then shows three pending issues, not one.
\<close>

theorem loadStats_pending_counterexample:
  "pending_issues (HomeScreen.stats (fst (loadStats example_world HomeScreen_initial))) = 3 \<and>
   fetch example_world (home_issues_request example_world)
     = Resolves 200 (Some (IssuesBody (Some [example_issue 5 (js ''reported'')]) (Some 3))) \<and>
   unresolved_count [example_issue 5 (js ''reported'')] = 1"
  by (simp add: loadStats_def example_world_def Let_def or_zero_def count_resolved_def
      unresolved_count_def example_issue_def js_def)

section \<open>Admin screen: access, deletion and search\<close>

text \<open>
  Claim C3, evaluated where it fails. With no cached user the screen shows the login prompt
  and asks for no statistics, but the search effect, which runs on mount with the empty
  query, still requests the issue list: \<open>initializeScreen\<close> guards its loads by the
  administrator role, the search effect does not.
\<close>

theorem mount_without_user_fetches_issues:
  "render_admin (screen (mount_admin guest_world)) = LoginPrompt \<and>
   requests (trace (mount_admin guest_world))
     = [(0, issues_request (js ''http://backend/api/issues'') None)]"
  by (simp add: mount_admin_def initializeScreen_admin_def loadUser_admin_def guest_world_def
      example_world_def is_admin_def searchQuery_effect_def AdminScreen_initial_def
      run_loadAllIssues_def loadAllIssues_def issues_url_def Let_def response_ok_def
      json_or_empty_def render_admin_def js_def)

text \<open>
  Claim C5. When the DELETE request of a confirmed delete action is answered with a status
  outside 200..299, the screen state is exactly what it was (the issue list and the
  statistics in particular), and one alert is shown, with the non-empty message
  \<open>Failed to remove issue\<close>.
\<close>

theorem delete_failure_keeps_state:
  assumes "getItem w (js ''token'') = Item token"
    and "fetch w (delete_request w issueId token) = Resolves sc b"
    and "\<not> response_ok sc"
  shows "fst (deleteIssue_onPress w issueId st) = st \<and>
         AdminScreen.issues (fst (deleteIssue_onPress w issueId st)) = AdminScreen.issues st \<and>
         AdminScreen.stats (fst (deleteIssue_onPress w issueId st)) = AdminScreen.stats st \<and>
         snd (deleteIssue_onPress w issueId st)
           = [Fetch (delete_request w issueId token),
              Alert (js ''Error'') (js ''Failed to remove issue'') []] \<and>
         js ''Failed to remove issue'' \<noteq> []"
  using assms by (simp add: deleteIssue_onPress_def Let_def delete_failed_def js_def)

theorem delete_failure_keeps_state_witness:
  "\<not> response_ok 500 \<and>
   deleteIssue_onPress failing_world 5
     (AdminScreen_initial\<lparr>AdminScreen.issues := [example_issue 5 (js ''reported'')]\<rparr>)
     = (AdminScreen_initial\<lparr>AdminScreen.issues := [example_issue 5 (js ''reported'')]\<rparr>,
        [Fetch (delete_request failing_world 5 (Some (js ''t0''))),
         Alert (js ''Error'') (js ''Failed to remove issue'') []])"
proof -
  have t: "getItem failing_world (js ''token'') = Item (Some (js ''t0''))"
    by (simp add: failing_world_def example_world_def js_def)
  have f: "fetch failing_world (delete_request failing_world 5 (Some (js ''t0'')))
             = Resolves 500 None"
    by (simp add: failing_world_def)
  have n: "\<not> response_ok 500" by (simp add: response_ok_def)
  from delete_failure_keeps_state [OF t f n] n show ?thesis
    by (simp add: prod_eq_iff)
qed

subsection \<open>The debounced search\<close>





















section \<open>Report screen: validation, permissions and translation\<close>

lemma fetches_submitReport:
  "fetches (snd (submitReport w st)) =
     (if truthy (user st) \<and> trim (title (formData st)) \<noteq> [] \<and> issue_type (formData st) \<noteq> []
      then (case getItem w (js ''token'') of
              ReadFails \<Rightarrow> []
            | Item token \<Rightarrow>
                [post_request w token (form_parts (formData st) @ photo_part (capturedPhoto st))])
      else [])"
  by (simp add: submitReport_def Let_def auth_required_def missing_information_def
      network_error_def after_post_def submit_success_def
      split: storage_read.split fetch_outcome.split option.split)

lemma fetches_submitReport_voice:
  "fetches (snd (submitReport_voice w st)) =
     (if truthy (user st) \<and> issue_type (formData st) \<noteq> []
         \<and> trim (description (formData st)) \<noteq> [] \<and> trim (translated (formData st)) \<noteq> []
      then (case getItem w (js ''token'') of
              ReadFails \<Rightarrow> []
            | Item token \<Rightarrow>
                [post_request w token
                   (form_parts_voice (formData st) @ photo_part (capturedPhoto st))])
      else [])"
  by (simp add: submitReport_voice_def Let_def auth_required_def missing_information_def
      network_error_def after_post_def submit_success_def
      split: storage_read.split fetch_outcome.split option.split)

lemma trim_Nil: "trim [] = []"
  by (simp add: trim_def)

lemma trim_nonempty: "trim s \<noteq> [] \<Longrightarrow> s \<noteq> []"
  by (auto simp: trim_Nil)

lemma example_user_truthy: "truthy example_user"
  by (simp add: example_user_def)

lemma trim_ascii_word:
  "trim (js ''Hole'') = js ''Hole''" "trim (js ''gaddha'') = js ''gaddha''"
  by (simp_all add: trim_def js_def isWhiteSpace_def)

lemma submit_onPress_voice_fetches:
  "fetches (snd (submit_onPress_voice w st)) =
     (if \<not> loading st \<and> truthy (user st) \<and> issue_type (formData st) \<noteq> []
         \<and> trim (description (formData st)) \<noteq> [] \<and> trim (translated (formData st)) \<noteq> []
      then (case getItem w (js ''token'') of
              ReadFails \<Rightarrow> []
            | Item token \<Rightarrow>
                [post_request w token
                   (form_parts_voice (formData st) @ photo_part (capturedPhoto st))])
      else [])"
  using trim_nonempty [of "description (formData st)"] trim_nonempty [of "translated (formData st)"]
  by (auto simp: submit_onPress_voice_def submit_disabled_voice_def fetches_submitReport_voice)

lemma submit_onPress_fetches:
  "fetches (snd (submit_onPress w st)) =
     (if \<not> loading st \<and> truthy (user st) \<and> trim (title (formData st)) \<noteq> []
         \<and> issue_type (formData st) \<noteq> []
      then (case getItem w (js ''token'') of
              ReadFails \<Rightarrow> []
            | Item token \<Rightarrow>
                [post_request w token (form_parts (formData st) @ photo_part (capturedPhoto st))])
      else [])"
  using trim_nonempty [of "title (formData st)"]
  by (auto simp: submit_onPress_def submit_disabled_def fetches_submitReport)

text \<open>
  Claim C6, as the code has it. In both variants of the report screen, when the issue type
  is the empty string \<open>submitReport\<close> leaves the state as it is, sends no request and shows
  exactly one alert, whatever the other fields hold: the missing-information alert when a
  cached user is loaded, the authentication-required alert when none is.
\<close>

theorem empty_issue_type_rejected:
  assumes "issue_type (formData st) = []" and "issue_type (formData vst) = []"
  shows "submitReport w st =
           (st, [if truthy (user st) then missing_information else auth_required]) \<and>
         fetches (snd (submitReport w st)) = [] \<and>
         submitReport_voice w vst =
           (vst, [if truthy (user vst) then missing_information else auth_required]) \<and>
         fetches (snd (submitReport_voice w vst)) = []"
  using assms
  by (simp add: submitReport_def submitReport_voice_def auth_required_def
      missing_information_def)

theorem empty_issue_type_rejected_witness:
  "submitReport example_world (anonymous_report\<lparr>user := example_user\<rparr>)
     = (anonymous_report\<lparr>user := example_user\<rparr>,
        [Alert (js ''Missing Information'') (js ''Please fill in all required fields'') []]) \<and>
   submitReport_voice example_world (issue_type_onPress [] example_voice)
     = (issue_type_onPress [] example_voice,
        [Alert (js ''Missing Information'') (js ''Please fill in all required fields'') []])"
proof -
  have a: "issue_type (formData (anonymous_report\<lparr>user := example_user\<rparr>)) = []"
    by (simp add: anonymous_report_def description_onChangeText_def title_onChangeText_def
        ReportScreen_initial_def)
  have b: "issue_type (formData (issue_type_onPress [] example_voice)) = []"
    by (simp add: issue_type_onPress_def)
  have u: "truthy (user (anonymous_report\<lparr>user := example_user\<rparr>))"
    "truthy (user (issue_type_onPress [] example_voice))"
    by (simp_all add: example_user_truthy issue_type_onPress_def example_voice_def
        description_onChangeText_def)
  from empty_issue_type_rejected [OF a b, of example_world] u
  show ?thesis by (simp add: missing_information_def)
qed

text \<open>
  Against claim C6 as stated: title and description are filled, the issue type is empty and
  no user is cached. The alert shown is the authentication one, not the missing-information
  one.
\<close>

theorem missing_type_without_user_counterexample:
  "issue_type (formData anonymous_report) = [] \<and>
   snd (submitReport example_world anonymous_report)
     = [Alert (js ''Authentication Required'') (js ''Please login to submit a report'') []] \<and>
   missing_information \<notin> set (snd (submitReport example_world anonymous_report))"
  by (simp add: submitReport_def anonymous_report_def description_onChangeText_def
      title_onChangeText_def ReportScreen_initial_def auth_required_def
      missing_information_def js_def)

text \<open>
  Claim C8. When \<open>handleTranslate\<close> calls the translation service (the text is not blank)
  and the call fails, the translated field becomes the text that was passed in and nothing
  else changes: the state is the one a successful translation to that very text would have
  produced, the translated field is not blank, and a press on submit sends the report with
  that text as its description as soon as the other requirements are met.
\<close>

theorem translation_failure_falls_back:
  assumes "trim text \<noteq> []" and "translate w text langCode = None"
  shows "handleTranslate w text langCode st
           = st\<lparr>formData := (formData st)\<lparr>translated := text\<rparr>\<rparr> \<and>
         translated (formData (handleTranslate w text langCode st)) = text \<and>
         handleTranslate w text langCode st
           = handleTranslate (w\<lparr>translate := (\<lambda>t l. Some text)\<rparr>) text langCode st \<and>
         trim (translated (formData (handleTranslate w text langCode st))) \<noteq> [] \<and>
         (\<not> loading st \<and> truthy (user st) \<and> issue_type (formData st) \<noteq> []
            \<and> trim (description (formData st)) \<noteq> []
            \<and> getItem w (js ''token'') = Item token \<longrightarrow>
            fetches (snd (submit_onPress_voice w (handleTranslate w text langCode st))) =
              [post_request w token
                 (form_parts_voice ((formData st)\<lparr>translated := text\<rparr>)
                  @ photo_part (capturedPhoto st))])"
proof -
  have eq: "handleTranslate w text langCode st
              = st\<lparr>formData := (formData st)\<lparr>translated := text\<rparr>\<rparr>"
    using assms by (simp add: handleTranslate_def)
  have same: "handleTranslate (w\<lparr>translate := (\<lambda>t l. Some text)\<rparr>) text langCode st
              = st\<lparr>formData := (formData st)\<lparr>translated := text\<rparr>\<rparr>"
    using assms by (simp add: handleTranslate_def)
  show ?thesis
    unfolding same unfolding eq
    using assms(1) by (simp add: submit_onPress_voice_fetches)
qed

theorem translation_failure_falls_back_witness:
  "translated (formData (handleTranslate example_world (js ''gaddha'') (js ''hi-IN'') example_voice))
     = js ''gaddha''"
proof -
  have a: "trim (js ''gaddha'') \<noteq> []"
    by (simp add: trim_ascii_word) (simp add: js_def)
  have b: "translate example_world (js ''gaddha'') (js ''hi-IN'') = None"
    by (simp add: example_world_def)
  from translation_failure_falls_back [OF a b, of example_voice] show ?thesis by simp
qed

text \<open>
  Claim C1, as the code has it. In the voice-enabled variant the submit button is disabled
  while the translated field is empty, and a press on submit issues no request while that
  field is empty or blank; once it holds non-blank text (a translation, or the original text
  stored after a failed translation) and the other requirements are met, a press issues the
  POST.
\<close>

theorem submit_blocked_while_translated_blank:
  "(translated (formData st) = [] \<longrightarrow>
      submit_disabled_voice st \<and> submit_onPress_voice w st = (st, [])) \<and>
   (trim (translated (formData st)) = [] \<longrightarrow>
      fetches (snd (submit_onPress_voice w st)) = [] \<and>
      fetches (snd (submitReport_voice w st)) = []) \<and>
   (\<not> loading st \<and> truthy (user st) \<and> issue_type (formData st) \<noteq> []
      \<and> trim (description (formData st)) \<noteq> [] \<and> trim (translated (formData st)) \<noteq> []
      \<and> getItem w (js ''token'') = Item token \<longrightarrow>
      fetches (snd (submit_onPress_voice w st)) =
        [post_request w token (form_parts_voice (formData st) @ photo_part (capturedPhoto st))])"
  by (simp add: submit_onPress_voice_fetches fetches_submitReport_voice)
     (simp add: submit_onPress_voice_def submit_disabled_voice_def)

theorem submit_blocked_while_translated_blank_witness:
  "submit_onPress_voice example_world example_voice = (example_voice, []) \<and>
   fetches (snd (submit_onPress_voice example_world
      (handleTranslate (example_world\<lparr>translate := (\<lambda>t l. Some (js ''pit''))\<rparr>)
         (js ''gaddha'') (js ''hi-IN'') example_voice)))
   = [post_request example_world (Some (js ''t0''))
        [(js ''title'', StringPart []),
         (js ''description'', StringPart (js ''pit'')),
         (js ''issue_type'', StringPart (js ''pothole'')),
         (js ''latitude'', NumberPart 0),
         (js ''longitude'', NumberPart 0),
         (js ''accuracy'', NumberPart 0)]]"
proof -
  let ?st = "handleTranslate (example_world\<lparr>translate := (\<lambda>t l. Some (js ''pit''))\<rparr>)
         (js ''gaddha'') (js ''hi-IN'') example_voice"
  have blank: "translated (formData example_voice) = []"
    by (simp add: example_voice_def description_onChangeText_def issue_type_onPress_def
        VoiceScreen_initial_def)
  have tr: "trim (js ''pit'') = js ''pit''"
    by (simp add: trim_def js_def isWhiteSpace_def)
  have ne: "js ''pit'' \<noteq> []" "js ''gaddha'' \<noteq> []" "js ''pothole'' \<noteq> []"
    by (simp_all add: js_def)
  have st: "?st = example_voice\<lparr>formData := (formData example_voice)\<lparr>translated := js ''pit''\<rparr>\<rparr>"
    using ne by (simp add: handleTranslate_def trim_ascii_word)
  have ready: "\<not> loading ?st \<and> truthy (user ?st) \<and> issue_type (formData ?st) \<noteq> []
      \<and> trim (description (formData ?st)) \<noteq> [] \<and> trim (translated (formData ?st)) \<noteq> []
      \<and> getItem example_world (js ''token'') = Item (Some (js ''t0''))"
    using ne unfolding st
    by (simp add: example_voice_def description_onChangeText_def issue_type_onPress_def
        VoiceScreen_initial_def example_user_truthy trim_ascii_word tr)
       (simp add: example_world_def js_def)
  have parts: "form_parts_voice (formData ?st) @ photo_part (capturedPhoto ?st) =
        [(js ''title'', StringPart []),
         (js ''description'', StringPart (js ''pit'')),
         (js ''issue_type'', StringPart (js ''pothole'')),
         (js ''latitude'', NumberPart 0),
         (js ''longitude'', NumberPart 0),
         (js ''accuracy'', NumberPart 0)]"
    unfolding st
    by (simp add: form_parts_voice_def photo_part_def example_voice_def
        description_onChangeText_def issue_type_onPress_def VoiceScreen_initial_def)
  note t1 = submit_blocked_while_translated_blank [of example_voice example_world]
  note t2 = submit_blocked_while_translated_blank [of ?st example_world "Some (js ''t0'')"]
  from t1 blank have "submit_onPress_voice example_world example_voice = (example_voice, [])"
    by blast
  moreover from t2 ready have "fetches (snd (submit_onPress_voice example_world ?st)) =
        [post_request example_world (Some (js ''t0''))
           (form_parts_voice (formData ?st) @ photo_part (capturedPhoto ?st))]"
    by blast
  ultimately show ?thesis using parts by simp
qed

text \<open>
  Against claim C1 as stated: the translation of the Hindi description fails, the effect
  stores the description itself as translation, and the press on submit posts the report.
\<close>

theorem failed_translation_counterexample:
  "translate example_world (description (formData example_voice))
      (code (selectedLang example_voice)) = None \<and>
   fetches (snd (submit_onPress_voice example_world
      (description_effect example_world example_voice)))
   = [post_request example_world (Some (js ''t0''))
        [(js ''title'', StringPart []),
         (js ''description'', StringPart (js ''gaddha'')),
         (js ''issue_type'', StringPart (js ''pothole'')),
         (js ''latitude'', NumberPart 0),
         (js ''longitude'', NumberPart 0),
         (js ''accuracy'', NumberPart 0)]]"
proof -
  have ne: "js ''gaddha'' \<noteq> []" "js ''pothole'' \<noteq> []" "js ''user'' \<noteq> js ''token''"
    by (simp_all add: js_def)
  have tr: "translate example_world (js ''gaddha'') (js ''hi-IN'') = None"
    by (simp add: example_world_def)
  have tok: "getItem example_world (js ''token'') = Item (Some (js ''t0''))"
    using ne by (simp add: example_world_def)
  show ?thesis
    using ne tr tok
    by (simp add: submit_onPress_voice_fetches description_effect_def handleTranslate_def
        example_voice_def description_onChangeText_def issue_type_onPress_def
        VoiceScreen_initial_def example_user_truthy trim_ascii_word form_parts_voice_def
        photo_part_def)
qed

text \<open>
  Claim C2, as the code has it. The permission requests record or report their outcome and
  gate nothing: the Take Photo button shows the camera view in every state and the capture
  button then calls the camera; a press on submit issues the POST exactly when no submission
  is in flight, a cached user is loaded, the title is not blank and the issue type is not
  empty (and the token can be read), and its effects do not depend on the recorded camera
  permission or on the location.
\<close>

theorem permissions_gate_nothing:
  "cameraVisible (takePhoto_onPress st) \<and>
   takePicture w (takePhoto_onPress st) =
     (case takePictureAsync w of
        None \<Rightarrow> (takePhoto_onPress st,
                  [Alert (js ''Camera Error'') (js ''Failed to take picture'') []])
      | Some uri \<Rightarrow> (st\<lparr>capturedPhoto := Some uri, cameraVisible := False\<rparr>, [])) \<and>
   fetches (snd (submit_onPress w st)) =
     (if \<not> loading st \<and> truthy (user st) \<and> trim (title (formData st)) \<noteq> []
         \<and> issue_type (formData st) \<noteq> []
      then (case getItem w (js ''token'') of
              ReadFails \<Rightarrow> []
            | Item token \<Rightarrow>
                [post_request w token (form_parts (formData st) @ photo_part (capturedPhoto st))])
      else []) \<and>
   snd (submit_onPress w (st\<lparr>hasCameraPermission := p, location := l\<rparr>))
     = snd (submit_onPress w st) \<and>
   (requestCameraPermissionsAsync w = PermissionStatus s \<longrightarrow>
      getCameraPermissions w st = (st\<lparr>hasCameraPermission := Some (s = js ''granted'')\<rparr>, [])) \<and>
   (requestForegroundPermissionsAsync w = PermissionStatus s \<and> s \<noteq> js ''granted'' \<longrightarrow>
      getLocationPermissions w st =
        (st, [Alert (js ''Permission denied'') (js ''Location permission is required'') []]))"
proof -
  have a: "snd (submit_onPress w (st\<lparr>hasCameraPermission := p, location := l\<rparr>))
             = snd (submit_onPress w st)"
    by (simp add: submit_onPress_def submit_disabled_def submitReport_def Let_def
        split: storage_read.split)
  have b: "takePicture w (takePhoto_onPress st) =
     (case takePictureAsync w of
        None \<Rightarrow> (takePhoto_onPress st,
                  [Alert (js ''Camera Error'') (js ''Failed to take picture'') []])
      | Some uri \<Rightarrow> (st\<lparr>capturedPhoto := Some uri, cameraVisible := False\<rparr>, []))"
    by (simp add: takePicture_def takePhoto_onPress_def split: option.split)
  show ?thesis
    using a b
    by (simp add: submit_onPress_fetches)
       (simp add: takePhoto_onPress_def getCameraPermissions_def getLocationPermissions_def)
qed

theorem permissions_gate_nothing_witness:
  "getCameraPermissions example_world ReportScreen_initial
     = (ReportScreen_initial\<lparr>hasCameraPermission := Some False\<rparr>, []) \<and>
   getLocationPermissions example_world ReportScreen_initial
     = (ReportScreen_initial,
        [Alert (js ''Permission denied'') (js ''Location permission is required'') []])"
proof -
  have c: "requestCameraPermissionsAsync example_world = PermissionStatus (js ''denied'')"
    and l: "requestForegroundPermissionsAsync example_world = PermissionStatus (js ''denied'')"
    by (simp_all add: example_world_def)
  have d: "js ''denied'' \<noteq> js ''granted''" by (simp add: js_def)
  from permissions_gate_nothing [of ReportScreen_initial example_world None None "js ''denied''"]
    c l d
  show ?thesis by simp
qed

text \<open>
  Against claim C2 as stated: both permissions are denied on mount; the Take Photo button
  still opens the camera view and the report is still posted, with coordinates 0.
\<close>

theorem permission_denied_counterexample:
  "requestCameraPermissionsAsync example_world = PermissionStatus (js ''denied'') \<and>
   requestForegroundPermissionsAsync example_world = PermissionStatus (js ''denied'') \<and>
   hasCameraPermission example_report = Some False \<and>
   location example_report = None \<and>
   cameraVisible (takePhoto_onPress example_report) = True \<and>
   fetches (snd (submit_onPress example_world example_report))
     = [post_request example_world (Some (js ''t0''))
          [(js ''title'', StringPart (js ''Hole'')),
           (js ''description'', StringPart []),
           (js ''issue_type'', StringPart (js ''pothole'')),
           (js ''latitude'', NumberPart 0),
           (js ''longitude'', NumberPart 0),
           (js ''accuracy'', NumberPart 0)]]"
proof -
  have ne: "js ''Hole'' \<noteq> []" "js ''pothole'' \<noteq> []" "js ''user'' \<noteq> js ''token''"
    "js ''denied'' \<noteq> js ''granted''" "js ''{}'' \<noteq> []"
    by (simp_all add: js_def)
  have tok: "getItem example_world (js ''token'') = Item (Some (js ''t0''))"
    using ne by (simp add: example_world_def)
  have init: "fst (initializeScreen_report example_world ReportScreen_initial)
                = ReportScreen_initial\<lparr>hasCameraPermission := Some False,
                     user := JObj [(js ''role'', JStr (js ''admin''))]\<rparr>"
    using ne
    by (simp add: initializeScreen_report_def getLocationPermissions_def
        getCameraPermissions_def loadUser_report_def example_world_def)
  have c: "requestCameraPermissionsAsync example_world = PermissionStatus (js ''denied'')"
    and l: "requestForegroundPermissionsAsync example_world = PermissionStatus (js ''denied'')"
    by (simp_all add: example_world_def)
  have rep: "example_report =
      ReportScreen_initial\<lparr>hasCameraPermission := Some False,
         user := JObj [(js ''role'', JStr (js ''admin''))],
         formData := (formData ReportScreen_initial)
                       \<lparr>title := js ''Hole'', issue_type := js ''pothole''\<rparr>\<rparr>"
    unfolding example_report_def init
    by (simp add: issue_type_onPress_def title_onChangeText_def ReportScreen_initial_def)
  show ?thesis
    using ne tok c l unfolding rep
    by (simp add: submit_onPress_fetches takePhoto_onPress_def ReportScreen_initial_def
        trim_ascii_word form_parts_def photo_part_def)
qed

end
